theory Spec2Isabelle
  imports
    Main
    "HOL-Library.Char_ord"
    "HOL-Library.List_Lexorder"
    "HOL-Library.Product_Lexorder"
    "HOL-Library.AList"
    "HOL-Library.Sublist"
    "HOL-Library.Multiset"
begin

section \<open>The credential vault of \<open>models/database.py\<close>\<close>

text \<open>
  The class \<open>CredentialDatabase\<close> keeps service/username/password records in two SQLite
  tables and encrypts every password with a Fernet cipher before it is written. This
  theory embeds the class: the tables are lists of rows in rowid order, every SQL statement
  the class issues is a function on the tables, every method is a function from the store
  to a result and the new store, and every \<open>try\<close>/\<open>except\<close> is a case distinction on a
  sum type.

  Conventions. A Python \<open>str\<close> is a \<open>string\<close> whose characters are code points below 256
  (Latin-1); \<open>len\<close> is \<open>length\<close>. A timestamp (\<open>CURRENT_TIMESTAMP\<close>) is a natural number
  handed to the method by its caller, as is the fresh randomness of one Fernet encryption.
  Failures of the file system and SQLite's limit on the size of one value are outside the
  model: a statement raises where a constraint of the schema rejects it, and where \<open>LIKE\<close>
  refuses its pattern.
\<close>

subsection \<open>Password strength (\<open>_calculate_password_strength\<close>)\<close>

text \<open>
  \<open>str.isupper\<close>, \<open>str.islower\<close> and \<open>str.isdigit\<close> of a one-character string, on the code
  points below 256 (Python 3 reads the Unicode properties Uppercase, Lowercase and the
  digit value of the character database).
\<close>

definition isupper :: "char \<Rightarrow> bool" where
  "isupper c =
     (let n = (of_char c :: nat) in
      (0x41 \<le> n \<and> n \<le> 0x5A) \<or> (0xC0 \<le> n \<and> n \<le> 0xD6) \<or> (0xD8 \<le> n \<and> n \<le> 0xDE))"

definition islower :: "char \<Rightarrow> bool" where
  "islower c =
     (let n = (of_char c :: nat) in
      (0x61 \<le> n \<and> n \<le> 0x7A) \<or> n = 0xAA \<or> n = 0xB5 \<or> n = 0xBA \<or>
      (0xDF \<le> n \<and> n \<le> 0xF6) \<or> (0xF8 \<le> n \<and> n \<le> 0xFF))"

definition isdigit :: "char \<Rightarrow> bool" where
  "isdigit c =
     (let n = (of_char c :: nat) in
      (0x30 \<le> n \<and> n \<le> 0x39) \<or> n = 0xB2 \<or> n = 0xB3 \<or> n = 0xB9)"

text \<open>The punctuation set of line 117.\<close>

definition symbols :: string where
  "symbols = ''!@#$%^&*()_+-=[]{}|;:,.<>?''"

text \<open>The local variable \<open>score\<close> after the six tests of lines 111 to 117.\<close>

definition password_score :: "string \<Rightarrow> nat" where
  "password_score password =
     (if 12 \<le> length password then 1 else 0) +
     (if 16 \<le> length password then 1 else 0) +
     (if list_ex isupper password then 1 else 0) +
     (if list_ex islower password then 1 else 0) +
     (if list_ex isdigit password then 1 else 0) +
     (if list_ex (\<lambda>c. c \<in> set symbols) password then 1 else 0)"

definition calculate_password_strength :: "string \<Rightarrow> string" where
  "calculate_password_strength password =
     (let score = password_score password in
      if 5 \<le> score then ''Strong''
      else if 3 \<le> score then ''Medium''
      else ''Weak'')"

subsection \<open>The tables (\<open>_create_tables\<close>)\<close>

type_synonym timestamp = nat

text \<open>
  A row of \<open>credentials\<close>. \<open>email\<close>, \<open>notes\<close> and \<open>last_accessed\<close> are the nullable columns
  the class writes \<open>None\<close> into; \<open>cred_id\<close> is the column \<open>id\<close> and \<open>notes'\<close> the column \<open>notes\<close>.
\<close>

record credential =
  cred_id :: nat
  service_name :: string
  username :: string
  email :: "string option"
  password_encrypted :: string
  password_strength :: string
  notes' :: "string option"
  category :: string
  created_at :: timestamp
  updated_at :: timestamp
  last_accessed :: "timestamp option"

text \<open>A row of \<open>password_history\<close>, its columns prefixed with \<open>hist\<close>.\<close>

record history_entry =
  hist_id :: nat
  hist_credential_id :: nat
  hist_password_encrypted :: string
  hist_generated_at :: timestamp

text \<open>
  The two tables, rows in rowid order, with the \<open>sqlite_sequence\<close> counters that
  \<open>AUTOINCREMENT\<close> keeps for them. (\<open>generation_settings\<close> is created and never read or
  written.)
\<close>

record database =
  credentials :: "credential list"
  password_history :: "history_entry list"
  seq_credentials :: nat
  seq_password_history :: nat

text \<open>
  The object's connection. \<open>conn\<close> is what the connection reads: the committed tables
  with the changes of its open transaction. \<open>disk\<close> is what \<open>commit\<close> last wrote.
  \<open>foreign_keys\<close> is the connection's \<open>PRAGMA foreign_keys\<close>.
\<close>

record store =
  foreign_keys :: bool
  conn :: database
  disk :: database

definition commit :: "store \<Rightarrow> store" where
  "commit s = s\<lparr>disk := conn s\<rparr>"

definition empty_database :: database where
  "empty_database =
     \<lparr>credentials = [], password_history = [], seq_credentials = 0, seq_password_history = 0\<rparr>"

text \<open>
  \<open>__init__\<close> on a new data directory: \<open>_connect\<close> opens the connection with
  \<open>sqlite3.connect\<close> and issues no \<open>PRAGMA\<close>, so foreign keys stay off, SQLite's default;
  \<open>_create_tables\<close> creates the empty tables and commits.
\<close>

definition connect :: store where
  "connect = \<lparr>foreign_keys = False, conn = empty_database, disk = empty_database\<rparr>"

subsection \<open>What a statement raises\<close>

datatype exn =
  IntegrityError string
  | OperationalError string
  | InvalidToken

text \<open>\<open>str(e)\<close>; \<open>InvalidToken\<close> carries no message.\<close>

fun str_exn :: "exn \<Rightarrow> string" where
  "str_exn (IntegrityError m) = m"
| "str_exn (OperationalError m) = m"
| "str_exn InvalidToken = []"

subsection \<open>The cipher (\<open>_encrypt_password\<close>, \<open>_decrypt_password\<close>)\<close>

text \<open>
  The Fernet object is a parameter. \<open>encrypt\<close> takes the randomness of the call (the
  initialisation vector and the time Fernet draws) and the plaintext; \<open>decrypt\<close> returns
  \<open>None\<close> where Fernet raises \<open>InvalidToken\<close>.
\<close>

record cipher_suite =
  encrypt :: "nat \<Rightarrow> string \<Rightarrow> string"
  decrypt :: "string \<Rightarrow> string option"

definition encrypt_password :: "cipher_suite \<Rightarrow> nat \<Rightarrow> string \<Rightarrow> string" where
  "encrypt_password cs iv password = encrypt cs iv password"

definition decrypt_password :: "cipher_suite \<Rightarrow> string \<Rightarrow> exn + string" where
  "decrypt_password cs encrypted_password =
     (case decrypt cs encrypted_password of
        None \<Rightarrow> Inl InvalidToken
      | Some password \<Rightarrow> Inr password)"

subsection \<open>The SQL statements\<close>

text \<open>
  The rowid \<open>AUTOINCREMENT\<close> gives a new row: one more than the largest rowid the table
  holds or ever held.
\<close>

definition next_rowid :: "nat list \<Rightarrow> nat \<Rightarrow> nat" where
  "next_rowid ids seq = Suc (fold max ids seq)"

text \<open>
  \<open>INSERT INTO credentials\<close> (line 131). \<open>UNIQUE(service_name, username)\<close> rejects the row
  when the pair is in the table; a rejected statement changes nothing. \<open>created_at\<close> and
  \<open>updated_at\<close> take their default, \<open>last_accessed\<close> is NULL.
\<close>

definition insert_credential ::
  "timestamp \<Rightarrow> string \<Rightarrow> string \<Rightarrow> string option \<Rightarrow> string \<Rightarrow> string \<Rightarrow> string option \<Rightarrow>
   string \<Rightarrow> database \<Rightarrow> exn + (nat \<times> database)" where
  "insert_credential now sn un em pw st nt cat db =
     (if list_ex (\<lambda>r. service_name r = sn \<and> username r = un) (credentials db)
      then Inl (IntegrityError
        ''UNIQUE constraint failed: credentials.service_name, credentials.username'')
      else
        let lastrowid = next_rowid (map cred_id (credentials db)) (seq_credentials db);
            row = \<lparr>cred_id = lastrowid, service_name = sn, username = un, email = em,
                   password_encrypted = pw, password_strength = st, notes' = nt,
                   category = cat, created_at = now, updated_at = now,
                   last_accessed = None\<rparr>
        in Inr (lastrowid,
                db\<lparr>credentials := credentials db @ [row], seq_credentials := lastrowid\<rparr>))"

text \<open>
  \<open>INSERT INTO password_history\<close> (lines 140 and 223). With foreign keys on, a
  \<open>credential_id\<close> that no credential has is rejected; with foreign keys off the
  \<open>FOREIGN KEY\<close> clause is not enforced.
\<close>

definition insert_history ::
  "bool \<Rightarrow> timestamp \<Rightarrow> nat \<Rightarrow> string \<Rightarrow> database \<Rightarrow> exn + database" where
  "insert_history fk now cid pw db =
     (if fk \<and> \<not> list_ex (\<lambda>r. cred_id r = cid) (credentials db)
      then Inl (IntegrityError ''FOREIGN KEY constraint failed'')
      else
        let rowid = next_rowid (map hist_id (password_history db)) (seq_password_history db);
            row = \<lparr>hist_id = rowid, hist_credential_id = cid, hist_password_encrypted = pw,
                   hist_generated_at = now\<rparr>
        in Inr (db\<lparr>password_history := password_history db @ [row],
                    seq_password_history := rowid\<rparr>))"

text \<open>
  \<open>DELETE FROM credentials WHERE id = ?\<close> (line 254), with the number of rows it deleted
  (\<open>cursor.rowcount\<close>). \<open>ON DELETE CASCADE\<close> deletes the history rows of a deleted
  credential only on a connection whose foreign keys are on.
\<close>

definition delete_credentials_where_id :: "bool \<Rightarrow> nat \<Rightarrow> database \<Rightarrow> nat \<times> database" where
  "delete_credentials_where_id fk cid db =
     (let rowcount = length (filter (\<lambda>r. cred_id r = cid) (credentials db));
          kept = filter (\<lambda>r. cred_id r \<noteq> cid) (credentials db)
      in (rowcount,
          if fk \<and> 0 < rowcount
          then db\<lparr>credentials := kept,
                  password_history :=
                    filter (\<lambda>h. hist_credential_id h \<noteq> cid) (password_history db)\<rparr>
          else db\<lparr>credentials := kept\<rparr>))"

text \<open>\<open>UPDATE credentials SET last_accessed = CURRENT_TIMESTAMP WHERE id = ?\<close> (line 189).\<close>

definition touch_last_accessed :: "timestamp \<Rightarrow> nat \<Rightarrow> database \<Rightarrow> database" where
  "touch_last_accessed now cid db =
     db\<lparr>credentials :=
          map (\<lambda>r. if cred_id r = cid then r\<lparr>last_accessed := Some now\<rparr> else r)
            (credentials db)\<rparr>"

text \<open>
  The \<open>SET\<close> list of the \<open>UPDATE\<close> that \<open>update_credential\<close> builds: one entry of
  \<open>update_fields\<close> with its entry of \<open>params\<close>.
\<close>

datatype assignment =
  Set_password_encrypted string
  | Set_password_strength string
  | Set_service_name string
  | Set_username string
  | Set_email "string option"
  | Set_notes "string option"
  | Set_category string
  | Set_updated_at

fun assign :: "timestamp \<Rightarrow> assignment \<Rightarrow> credential \<Rightarrow> credential" where
  "assign now (Set_password_encrypted v) r = r\<lparr>password_encrypted := v\<rparr>"
| "assign now (Set_password_strength v) r = r\<lparr>password_strength := v\<rparr>"
| "assign now (Set_service_name v) r = r\<lparr>service_name := v\<rparr>"
| "assign now (Set_username v) r = r\<lparr>username := v\<rparr>"
| "assign now (Set_email v) r = r\<lparr>email := v\<rparr>"
| "assign now (Set_notes v) r = r\<lparr>notes' := v\<rparr>"
| "assign now (Set_category v) r = r\<lparr>category := v\<rparr>"
| "assign now Set_updated_at r = r\<lparr>updated_at := now\<rparr>"

text \<open>
  \<open>UPDATE credentials SET ... WHERE id = ?\<close> (line 242). The statement is rejected, and
  changes nothing, when the row it rewrites would carry the pair
  \<open>(service_name, username)\<close> of another row.
\<close>

definition update_credentials_where_id ::
  "timestamp \<Rightarrow> assignment list \<Rightarrow> nat \<Rightarrow> database \<Rightarrow> exn + database" where
  "update_credentials_where_id now update_fields cid db =
     (let rewritten = (\<lambda>r. fold (assign now) update_fields r);
          others = filter (\<lambda>q. cred_id q \<noteq> cid) (credentials db)
      in if list_ex (\<lambda>r. cred_id r = cid \<and>
               list_ex (\<lambda>q. service_name q = service_name (rewritten r) \<and>
                             username q = username (rewritten r)) others)
             (credentials db)
         then Inl (IntegrityError
           ''UNIQUE constraint failed: credentials.service_name, credentials.username'')
         else Inr (db\<lparr>credentials :=
                map (\<lambda>r. if cred_id r = cid then rewritten r else r) (credentials db)\<rparr>))"

subsection \<open>\<open>LIKE\<close>\<close>




text \<open>
  The length of a text in bytes, in the UTF-8 encoding SQLite keeps it in: one byte for a
  code point below 128, two for the others below 256.
\<close>

definition utf8_bytes :: "string \<Rightarrow> nat" where
  "utf8_bytes t = sum_list (map (\<lambda>c. if of_char c < (128::nat) then 1 else 2) t)"




subsection \<open>Rows as dictionaries\<close>

datatype sql_value =
  Null
  | Integer nat
  | Text string
  | Timestamp nat

text \<open>
  A Python \<open>dict\<close> with string keys, in insertion order: \<open>d[k] = v\<close> is \<open>AList.update\<close>,
  \<open>del d[k]\<close> is \<open>AList.delete\<close>, a lookup is \<open>map_of\<close>.
\<close>

type_synonym row_dict = "(string \<times> sql_value) list"

definition nullable :: "string option \<Rightarrow> sql_value" where
  "nullable v = (case v of None \<Rightarrow> Null | Some t \<Rightarrow> Text t)"

text \<open>\<open>dict(row)\<close> of a row that \<open>SELECT *\<close> returned: every column of \<open>credentials\<close>.\<close>

definition dict_of_row :: "credential \<Rightarrow> row_dict" where
  "dict_of_row r =
     [(''id'', Integer (cred_id r)),
      (''service_name'', Text (service_name r)),
      (''username'', Text (username r)),
      (''email'', nullable (email r)),
      (''password_encrypted'', Text (password_encrypted r)),
      (''password_strength'', Text (password_strength r)),
      (''notes'', nullable (notes' r)),
      (''category'', Text (category r)),
      (''created_at'', Timestamp (created_at r)),
      (''updated_at'', Timestamp (updated_at r)),
      (''last_accessed'', (case last_accessed r of None \<Rightarrow> Null | Some t \<Rightarrow> Timestamp t))]"

text \<open>\<open>dict(row)\<close> of a row of a \<open>SELECT\<close> that lists its columns.\<close>

definition select_columns :: "string list \<Rightarrow> credential \<Rightarrow> row_dict" where
  "select_columns cols r = AList.restrict (set cols) (dict_of_row r)"

subsection \<open>The methods\<close>

text \<open>
  The dictionary a mutating method returns: the keys \<open>success\<close> and \<open>message\<close>, and the
  key \<open>id\<close> (\<open>id'\<close>, \<open>None\<close> where the dictionary has no such key).
\<close>

record result =
  success :: bool
  message :: string
  id' :: "nat option"

text \<open>The two \<open>except\<close> clauses of \<open>add_credential\<close> (lines 152 to 161).\<close>

fun add_failed :: "string \<Rightarrow> string \<Rightarrow> exn \<Rightarrow> result" where
  "add_failed sn un (IntegrityError m) =
     \<lparr>success = False,
      message = ''Credential already exists: '' @ sn @ '' - '' @ un,
      id' = None\<rparr>"
| "add_failed sn un e =
     \<lparr>success = False, message = ''Error saving credential: '' @ str_exn e, id' = None\<rparr>"

definition add_credential ::
  "cipher_suite \<Rightarrow> nat \<Rightarrow> timestamp \<Rightarrow> store \<Rightarrow> string \<Rightarrow> string \<Rightarrow> string \<Rightarrow>
   string option \<Rightarrow> string option \<Rightarrow> string \<Rightarrow> result \<times> store" where
  "add_credential cs iv now s sn un password em nt cat =
     (let encrypted_pwd = encrypt_password cs iv password;
          strength = calculate_password_strength password
      in case insert_credential now sn un em encrypted_pwd strength nt cat (conn s) of
           Inl e \<Rightarrow> (add_failed sn un e, s)
         | Inr (credential_id, db1) \<Rightarrow>
             (case insert_history (foreign_keys s) now credential_id encrypted_pwd db1 of
                Inl e \<Rightarrow> (add_failed sn un e, s\<lparr>conn := db1\<rparr>)
              | Inr db2 \<Rightarrow>
                  (\<lparr>success = True, message = ''Credential saved: '' @ sn,
                    id' = Some credential_id\<rparr>,
                   commit (s\<lparr>conn := db2\<rparr>))))"

text \<open>The columns of the \<open>SELECT\<close> in \<open>get_all_credentials\<close> (line 167).\<close>

definition listed_columns :: "string list" where
  "listed_columns =
     [''id'', ''service_name'', ''username'', ''email'', ''password_encrypted'',
      ''password_strength'', ''notes'', ''category'', ''created_at'', ''updated_at'']"

text \<open>The body of the loop of \<open>get_all_credentials\<close> (lines 175 to 178), for one row.\<close>

definition listed_credential :: "cipher_suite \<Rightarrow> bool \<Rightarrow> credential \<Rightarrow> exn + row_dict" where
  "listed_credential cs decrypt_passwords row =
     (let cred = select_columns listed_columns row
      in if decrypt_passwords
         then (case decrypt_password cs (password_encrypted row) of
                 Inl e \<Rightarrow> Inl e
               | Inr password \<Rightarrow>
                   Inr (AList.delete ''password_encrypted''
                          (AList.update ''password'' (Text password) cred)))
         else Inr (AList.delete ''password_encrypted'' cred))"

text \<open>The loop: the first row that raises ends it.\<close>

fun listed_credentials :: "cipher_suite \<Rightarrow> bool \<Rightarrow> credential list \<Rightarrow> exn + row_dict list" where
  "listed_credentials cs decrypt_passwords [] = Inr []"
| "listed_credentials cs decrypt_passwords (row # rows) =
     (case listed_credential cs decrypt_passwords row of
        Inl e \<Rightarrow> Inl e
      | Inr cred \<Rightarrow>
          (case listed_credentials cs decrypt_passwords rows of
             Inl e \<Rightarrow> Inl e
           | Inr results \<Rightarrow> Inr (cred # results)))"

text \<open>
  \<open>ORDER BY service_name, username\<close> compares the texts code point by code point
  (the collation \<open>BINARY\<close>). The handler of line 182 turns any exception into the empty
  list.
\<close>

definition get_all_credentials :: "cipher_suite \<Rightarrow> store \<Rightarrow> bool \<Rightarrow> row_dict list" where
  "get_all_credentials cs s decrypt_passwords =
     (case listed_credentials cs decrypt_passwords
             (sort_key (\<lambda>r. (service_name r, username r)) (credentials (conn s))) of
        Inl e \<Rightarrow> []
      | Inr results \<Rightarrow> results)"

text \<open>
  \<open>get_credential_by_id\<close>: the \<open>UPDATE\<close> of \<open>last_accessed\<close>, the \<open>SELECT *\<close> with
  \<open>fetchone\<close>, the commit, and then the decryption; the handler of line 206 turns any
  exception into \<open>None\<close>.
\<close>

definition get_credential_by_id ::
  "cipher_suite \<Rightarrow> timestamp \<Rightarrow> store \<Rightarrow> nat \<Rightarrow> row_dict option \<times> store" where
  "get_credential_by_id cs now s credential_id =
     (let db1 = touch_last_accessed now credential_id (conn s);
          result = find (\<lambda>r. cred_id r = credential_id) (credentials db1);
          s1 = commit (s\<lparr>conn := db1\<rparr>)
      in case result of
           None \<Rightarrow> (None, s1)
         | Some row \<Rightarrow>
             (case decrypt_password cs (password_encrypted row) of
                Inl e \<Rightarrow> (None, s1)
              | Inr password \<Rightarrow>
                  (Some (AList.delete ''password_encrypted''
                           (AList.update ''password'' (Text password) (dict_of_row row))),
                   s1)))"

text \<open>
  The keyword arguments of \<open>update_credential\<close>: \<open>None\<close> for a key that \<open>kwargs\<close> does not
  have. \<open>email\<close> and \<open>notes\<close> may be given as \<open>None\<close>.
\<close>

record kwargs =
  kw_password :: "string option"
  kw_service_name :: "string option"
  kw_username :: "string option"
  kw_email :: "string option option"
  kw_notes :: "string option option"
  kw_category :: "string option"

text \<open>The loop of line 228 over the five plain keys, in its order.\<close>

definition plain_fields :: "kwargs \<Rightarrow> assignment list" where
  "plain_fields kw =
     (case kw_service_name kw of None \<Rightarrow> [] | Some v \<Rightarrow> [Set_service_name v]) @
     (case kw_username kw of None \<Rightarrow> [] | Some v \<Rightarrow> [Set_username v]) @
     (case kw_email kw of None \<Rightarrow> [] | Some v \<Rightarrow> [Set_email v]) @
     (case kw_notes kw of None \<Rightarrow> [] | Some v \<Rightarrow> [Set_notes v]) @
     (case kw_category kw of None \<Rightarrow> [] | Some v \<Rightarrow> [Set_category v])"

text \<open>Lines 233 to 247: what \<open>update_credential\<close> does once \<open>update_fields\<close> is built.\<close>

definition apply_update ::
  "timestamp \<Rightarrow> store \<Rightarrow> nat \<Rightarrow> assignment list \<Rightarrow> result \<times> store" where
  "apply_update now s credential_id update_fields =
     (if update_fields \<noteq> []
      then (case update_credentials_where_id now (update_fields @ [Set_updated_at])
                   credential_id (conn s) of
              Inl e \<Rightarrow>
                (\<lparr>success = False, message = ''Update error: '' @ str_exn e, id' = None\<rparr>, s)
            | Inr db \<Rightarrow>
                (\<lparr>success = True, message = ''Credential updated'', id' = None\<rparr>,
                 commit (s\<lparr>conn := db\<rparr>)))
      else (\<lparr>success = False, message = ''No updates provided'', id' = None\<rparr>, s))"

definition update_credential ::
  "cipher_suite \<Rightarrow> nat \<Rightarrow> timestamp \<Rightarrow> store \<Rightarrow> nat \<Rightarrow> kwargs \<Rightarrow> result \<times> store" where
  "update_credential cs iv now s credential_id kw =
     (case kw_password kw of
        None \<Rightarrow> apply_update now s credential_id (plain_fields kw)
      | Some password \<Rightarrow>
          (let encrypted_pwd = encrypt_password cs iv password;
               strength = calculate_password_strength password
           in case insert_history (foreign_keys s) now credential_id encrypted_pwd (conn s) of
                Inl e \<Rightarrow>
                  (\<lparr>success = False, message = ''Update error: '' @ str_exn e, id' = None\<rparr>,
                   s)
              | Inr db \<Rightarrow>
                  apply_update now (s\<lparr>conn := db\<rparr>) credential_id
                    ([Set_password_encrypted encrypted_pwd, Set_password_strength strength] @
                     plain_fields kw)))"

definition delete_credential :: "store \<Rightarrow> nat \<Rightarrow> result \<times> store" where
  "delete_credential s credential_id =
     (case delete_credentials_where_id (foreign_keys s) credential_id (conn s) of
        (rowcount, db) \<Rightarrow>
          if 0 < rowcount
          then (\<lparr>success = True, message = ''Credential deleted'', id' = None\<rparr>,
                commit (s\<lparr>conn := db\<rparr>))
          else (\<lparr>success = False, message = ''Credential not found'', id' = None\<rparr>,
                s\<lparr>conn := db\<rparr>))"




text \<open>
  \<open>SELECT k, COUNT(*) ... GROUP BY k\<close> read into a dictionary: one entry for every value
  of the column, with the number of rows that have it.
\<close>

definition group_count :: "'a list \<Rightarrow> ('a \<times> nat) list" where
  "group_count ks = map (\<lambda>k. (k, count_list ks k)) (remdups ks)"

record statistics =
  total_credentials :: nat
  by_category :: "(string \<times> nat) list"
  by_strength :: "(string \<times> nat) list"

definition get_statistics :: "store \<Rightarrow> statistics" where
  "get_statistics s =
     \<lparr>total_credentials = length (credentials (conn s)),
      by_category = group_count (map category (credentials (conn s))),
      by_strength = group_count (map password_strength (credentials (conn s)))\<rparr>"

subsection \<open>A cipher for concrete runs\<close>

text \<open>
  A stand-in for the Fernet object where a theorem is evaluated at a concrete input: a
  token is the prefix every Fernet token starts with, one character of the call's
  randomness and the reversed plaintext; a token decrypts to its plaintext and any other
  text is rejected.
\<close>

definition demo_cipher :: cipher_suite where
  "demo_cipher =
     \<lparr>encrypt = (\<lambda>iv p. ''gAAAAA'' @ [char_of iv] @ rev p),
      decrypt = (\<lambda>c. if take 6 c = ''gAAAAA'' \<and> 7 \<le> length c
                      then Some (rev (drop 7 c)) else None)\<rparr>"

subsection \<open>Notions the properties speak of\<close>








subsection \<open>Concrete runs\<close>

text \<open>The first call on a new vault, and the vault it leaves.\<close>

definition first_add :: "result \<times> store" where
  "first_add =
     add_credential demo_cipher 65 100 connect ''GitHub'' ''alice'' ''Password1'' None None
       ''General''"

definition github_vault :: store where
  "github_vault = snd first_add"

text \<open>
  The same vault after its one ciphertext lost its first character in the data file: the
  cell no longer holds a token of the cipher.
\<close>

definition damaged_vault :: store where
  "damaged_vault =
     (let db = (conn github_vault)\<lparr>credentials :=
                 map (\<lambda>r. r\<lparr>password_encrypted := ''AAAAAA1drowssaP''\<rparr>)
                   (credentials (conn github_vault))\<rparr>
      in github_vault\<lparr>conn := db, disk := db\<rparr>)"

text \<open>A second credential, and the vault of the search example: GitHub, Twitter, Gitlab.\<close>

definition second_add :: "result \<times> store" where
  "second_add =
     add_credential demo_cipher 66 101 github_vault ''Twitter'' ''carol'' ''c4rol'' None None
       ''General''"

definition three_vault :: store where
  "three_vault =
     snd (add_credential demo_cipher 67 102 (snd second_add) ''Gitlab'' ''bob'' ''b0b'' None
       None ''General'')"





definition no_kwargs :: kwargs where
  "no_kwargs =
     \<lparr>kw_password = None, kw_service_name = None, kw_username = None, kw_email = None,
      kw_notes = None, kw_category = None\<rparr>"


section \<open>Properties\<close>

subsection \<open>Statistics\<close>

lemma sum_group_count: "sum_list (map snd (group_count ks)) = length ks"
proof -
  have "sum_list (map snd (group_count ks)) = sum_list (map (count_list ks) (remdups ks))"
    by (simp add: group_count_def comp_def)
  also have "\<dots> = sum (count_list ks) (set ks)"
    by (simp add: sum_list_distinct_conv_sum_set)
  also have "\<dots> = length ks"
    by (rule sum_count_set) simp_all
  finally show ?thesis .
qed

lemma keys_group_count: "map fst (group_count ks) = remdups ks"
  by (simp add: group_count_def comp_def)

lemma count_list_map: "count_list (map f xs) k = length (filter (\<lambda>r. f r = k) xs)"
  by (induction xs) simp_all

lemma map_of_group_count:
  "map_of (group_count ks) k = (if k \<in> set ks then Some (count_list ks k) else None)"
  by (simp add: group_count_def map_of_map_restrict restrict_map_def)

text \<open>
  C10. In every store the statistics are consistent: \<open>total_credentials\<close> is the sum of
  the counts of \<open>by_category\<close> and the sum of the counts of \<open>by_strength\<close>. Each dictionary
  has one entry for every value that occurs (its keys are distinct), and the entry of a
  value counts the rows that have it, so every row is counted in exactly one group of
  each dictionary.
\<close>

theorem statistics_consistent:
  "total_credentials (get_statistics s) = sum_list (map snd (by_category (get_statistics s))) \<and>
   total_credentials (get_statistics s) = sum_list (map snd (by_strength (get_statistics s))) \<and>
   distinct (map fst (by_category (get_statistics s))) \<and>
   distinct (map fst (by_strength (get_statistics s))) \<and>
   map_of (by_category (get_statistics s)) c =
     (if c \<in> category ` set (credentials (conn s))
      then Some (length (filter (\<lambda>r. category r = c) (credentials (conn s)))) else None) \<and>
   map_of (by_strength (get_statistics s)) c =
     (if c \<in> password_strength ` set (credentials (conn s))
      then Some (length (filter (\<lambda>r. password_strength r = c) (credentials (conn s))))
      else None)"
  by (simp add: get_statistics_def sum_group_count keys_group_count map_of_group_count
      count_list_map)

lemma three_vault_statistics:
  "get_statistics three_vault =
     \<lparr>total_credentials = 3, by_category = [(''General'', 3)],
      by_strength = [(''Medium'', 1), (''Weak'', 2)]\<rparr>"
  by code_simp

theorem statistics_consistent_witness:
  "get_statistics three_vault =
     \<lparr>total_credentials = 3, by_category = [(''General'', 3)],
      by_strength = [(''Medium'', 1), (''Weak'', 2)]\<rparr> \<and>
   total_credentials (get_statistics three_vault) =
     sum_list (map snd (by_strength (get_statistics three_vault))) \<and>
   map_of (by_strength (get_statistics three_vault)) ''Weak'' = Some 2"
  using statistics_consistent [of three_vault "''Weak''"] three_vault_statistics by simp

subsection \<open>The strength scorer\<close>

text \<open>
  C4, as amended. The scorer gives one point for each of: length at least 12, length at
  least 16, an uppercase letter, a lowercase letter, a digit, a character of the
  punctuation set. The result is Strong exactly when the points are at least 5, Medium
  exactly when they are 3 or 4, Weak otherwise. \<open>abc\<close> scores 1 (Weak), \<open>Password1\<close>
  scores 3 (Medium), and \<open>Str0ng!Passw0rd\<close> scores 5 (Strong).
\<close>

theorem strength_scorer:
  "password_score p =
     of_bool (12 \<le> length p) + of_bool (16 \<le> length p) +
     of_bool (\<exists>c \<in> set p. isupper c) + of_bool (\<exists>c \<in> set p. islower c) +
     of_bool (\<exists>c \<in> set p. isdigit c) +
     of_bool (\<exists>c \<in> set p. c \<in> set ''!@#$%^&*()_+-=[]{}|;:,.<>?'') \<and>
   (calculate_password_strength p = ''Strong'') = (5 \<le> password_score p) \<and>
   (calculate_password_strength p = ''Medium'') =
     (3 \<le> password_score p \<and> password_score p < 5) \<and>
   (calculate_password_strength p = ''Weak'') = (password_score p < 3) \<and>
   password_score ''abc'' = 1 \<and> calculate_password_strength ''abc'' = ''Weak'' \<and>
   password_score ''Password1'' = 3 \<and> calculate_password_strength ''Password1'' = ''Medium'' \<and>
   password_score ''Str0ng!Passw0rd'' = 5 \<and>
   calculate_password_strength ''Str0ng!Passw0rd'' = ''Strong''"
proof -
  have points: "password_score p =
     of_bool (12 \<le> length p) + of_bool (16 \<le> length p) +
     of_bool (\<exists>c \<in> set p. isupper c) + of_bool (\<exists>c \<in> set p. islower c) +
     of_bool (\<exists>c \<in> set p. isdigit c) +
     of_bool (\<exists>c \<in> set p. c \<in> set ''!@#$%^&*()_+-=[]{}|;:,.<>?'')"
    unfolding password_score_def symbols_def list_ex_iff of_bool_def by (rule refl)
  have classes:
    "(calculate_password_strength p = ''Strong'') = (5 \<le> password_score p)"
    "(calculate_password_strength p = ''Medium'') =
       (3 \<le> password_score p \<and> password_score p < 5)"
    "(calculate_password_strength p = ''Weak'') = (password_score p < 3)"
    by (auto simp add: calculate_password_strength_def Let_def)
  have abc: "password_score ''abc'' = 1"
    by (simp add: password_score_def isupper_def islower_def isdigit_def symbols_def)
  have pw1: "password_score ''Password1'' = 3"
    by (simp add: password_score_def isupper_def islower_def isdigit_def symbols_def)
  have str: "password_score ''Str0ng!Passw0rd'' = 5"
    by (simp add: password_score_def isupper_def islower_def isdigit_def symbols_def)
  show ?thesis
    using points classes abc pw1 str by (simp add: calculate_password_strength_def)
qed

text \<open>
  The claim as stated gives \<open>Str0ng!Passw0rd\<close> six points. The password has 15
  characters, so the point for length 16 is not given.
\<close>

theorem strength_scorer_counterexample:
  "password_score ''Str0ng!Passw0rd'' \<noteq> 6 \<and> length ''Str0ng!Passw0rd'' = 15"
  by (simp add: password_score_def isupper_def islower_def isdigit_def symbols_def)

subsection \<open>Concrete runs, evaluated\<close>

lemma first_add_eval:
  "first_add =
     (\<lparr>success = True, message = ''Credential saved: GitHub'', id' = Some 1\<rparr>,
      \<lparr>foreign_keys = False,
       conn = \<lparr>credentials =
                [\<lparr>cred_id = 1, service_name = ''GitHub'', username = ''alice'', email = None,
                  password_encrypted = ''gAAAAAA1drowssaP'', password_strength = ''Medium'',
                  notes' = None, category = ''General'', created_at = 100, updated_at = 100,
                  last_accessed = None\<rparr>],
              password_history =
                [\<lparr>hist_id = 1, hist_credential_id = 1,
                  hist_password_encrypted = ''gAAAAAA1drowssaP'', hist_generated_at = 100\<rparr>],
              seq_credentials = 1, seq_password_history = 1\<rparr>,
       disk = \<lparr>credentials =
                [\<lparr>cred_id = 1, service_name = ''GitHub'', username = ''alice'', email = None,
                  password_encrypted = ''gAAAAAA1drowssaP'', password_strength = ''Medium'',
                  notes' = None, category = ''General'', created_at = 100, updated_at = 100,
                  last_accessed = None\<rparr>],
              password_history =
                [\<lparr>hist_id = 1, hist_credential_id = 1,
                  hist_password_encrypted = ''gAAAAAA1drowssaP'', hist_generated_at = 100\<rparr>],
              seq_credentials = 1, seq_password_history = 1\<rparr>\<rparr>)"
  by code_simp

lemma github_vault_rows:
  "credentials (conn github_vault) =
     [\<lparr>cred_id = 1, service_name = ''GitHub'', username = ''alice'', email = None,
       password_encrypted = ''gAAAAAA1drowssaP'', password_strength = ''Medium'',
       notes' = None, category = ''General'', created_at = 100, updated_at = 100,
       last_accessed = None\<rparr>]"
  by (simp add: github_vault_def first_add_eval)

lemma demo_cipher_roundtrip: "decrypt demo_cipher (encrypt demo_cipher iv p) = Some p"
  by (simp add: demo_cipher_def)


subsection \<open>Lists and rowids\<close>

lemma find_append:
  "find P (xs @ ys) = (case find P xs of None \<Rightarrow> find P ys | Some x \<Rightarrow> Some x)"
  by (induction xs) simp_all

lemma next_rowid_fresh: "i \<in> set ids \<Longrightarrow> i < next_rowid ids seq"
proof -
  assume "i \<in> set ids"
  then have "i \<le> Max (set (seq # ids))" by (intro Max_ge) simp_all
  then have "i \<le> fold max ids seq" by (simp only: Max.set_eq_fold)
  then show ?thesis by (simp add: next_rowid_def)
qed

lemma next_rowid_notin: "next_rowid ids seq \<notin> set ids"
  using next_rowid_fresh [of "next_rowid ids seq" ids seq] by blast

subsection \<open>\<open>add_credential\<close>\<close>

text \<open>The two ways \<open>add_credential\<close> runs: the pair is new, or it is in the table.\<close>

lemma add_credential_new:
  assumes "\<not> list_ex (\<lambda>r. service_name r = sn \<and> username r = un) (credentials (conn s))"
  shows "add_credential cs iv now s sn un password em nt cat =
    (let i = next_rowid (map cred_id (credentials (conn s))) (seq_credentials (conn s));
         j = next_rowid (map hist_id (password_history (conn s)))
               (seq_password_history (conn s));
         db = \<lparr>credentials = credentials (conn s) @
                  [\<lparr>cred_id = i, service_name = sn, username = un, email = em,
                    password_encrypted = encrypt cs iv password,
                    password_strength = calculate_password_strength password, notes' = nt,
                    category = cat, created_at = now, updated_at = now,
                    last_accessed = None\<rparr>],
               password_history = password_history (conn s) @
                  [\<lparr>hist_id = j, hist_credential_id = i,
                    hist_password_encrypted = encrypt cs iv password,
                    hist_generated_at = now\<rparr>],
               seq_credentials = i, seq_password_history = j\<rparr>
     in (\<lparr>success = True, message = ''Credential saved: '' @ sn, id' = Some i\<rparr>,
         \<lparr>foreign_keys = foreign_keys s, conn = db, disk = db\<rparr>))"
  using assms
  by (simp add: add_credential_def insert_credential_def insert_history_def Let_def
      encrypt_password_def commit_def)

lemma add_credential_duplicate:
  assumes "list_ex (\<lambda>r. service_name r = sn \<and> username r = un) (credentials (conn s))"
  shows "add_credential cs iv now s sn un password em nt cat =
    (\<lparr>success = False, message = ''Credential already exists: '' @ sn @ '' - '' @ un,
      id' = None\<rparr>, s)"
  using assms by (simp add: add_credential_def insert_credential_def Let_def)



subsection \<open>\<open>get_credential_by_id\<close>\<close>

lemma returned_dict:
  "AList.delete ''password_encrypted'' (AList.update ''password'' (Text p) (dict_of_row r)) =
     [(''id'', Integer (cred_id r)),
      (''service_name'', Text (service_name r)),
      (''username'', Text (username r)),
      (''email'', nullable (email r)),
      (''password_strength'', Text (password_strength r)),
      (''notes'', nullable (notes' r)),
      (''category'', Text (category r)),
      (''created_at'', Timestamp (created_at r)),
      (''updated_at'', Timestamp (updated_at r)),
      (''last_accessed'', (case last_accessed r of None \<Rightarrow> Null | Some t \<Rightarrow> Timestamp t)),
      (''password'', Text p)]"
  by (simp add: dict_of_row_def AList.delete_eq)

lemma find_touched:
  "find (\<lambda>r. cred_id r = i) (credentials (touch_last_accessed now i db)) =
   map_option (\<lambda>r. r\<lparr>last_accessed := Some now\<rparr>)
     (find (\<lambda>r. cred_id r = i) (credentials db))"
proof -
  have "find (\<lambda>r. cred_id r = i)
          (map (\<lambda>r. if cred_id r = i then r\<lparr>last_accessed := Some now\<rparr> else r) rows) =
        map_option (\<lambda>r. r\<lparr>last_accessed := Some now\<rparr>) (find (\<lambda>r. cred_id r = i) rows)"
    for rows
    by (induction rows) simp_all
  then show ?thesis by (simp add: touch_last_accessed_def)
qed

lemma get_credential_by_id_found:
  assumes "find (\<lambda>r. cred_id r = i) (credentials (conn s)) = Some r"
      and "decrypt cs (password_encrypted r) = Some p"
  shows "fst (get_credential_by_id cs now s i) =
     Some (AList.delete ''password_encrypted''
            (AList.update ''password'' (Text p)
               (dict_of_row (r\<lparr>last_accessed := Some now\<rparr>))))"
  using assms
  by (simp add: get_credential_by_id_def Let_def find_touched decrypt_password_def)

lemma get_credential_by_id_store:
  "snd (get_credential_by_id cs now s i) =
     s\<lparr>conn := touch_last_accessed now i (conn s),
       disk := touch_last_accessed now i (conn s)\<rparr>"
  by (simp add: get_credential_by_id_def Let_def commit_def split: option.split sum.split)

text \<open>
  C3. After a successful \<open>add_credential\<close> of the password \<open>password\<close>, under a cipher
  that decrypts this token to its plaintext, \<open>get_credential_by_id\<close> of the returned id
  returns the record of the new credential, and its \<open>password\<close> is \<open>password\<close>.
\<close>

theorem add_then_get_roundtrip:
  assumes cipher: "decrypt cs (encrypt cs iv password) = Some password"
      and add: "add_credential cs iv now s sn un password em nt cat = (res, s')"
      and ok: "success res"
  shows "\<exists>i. id' res = Some i \<and>
           fst (get_credential_by_id cs now' s' i) =
             Some [(''id'', Integer i),
                   (''service_name'', Text sn),
                   (''username'', Text un),
                   (''email'', nullable em),
                   (''password_strength'', Text (calculate_password_strength password)),
                   (''notes'', nullable nt),
                   (''category'', Text cat),
                   (''created_at'', Timestamp now),
                   (''updated_at'', Timestamp now),
                   (''last_accessed'', Timestamp now'),
                   (''password'', Text password)]"
proof -
  let ?rows = "credentials (conn s)"
  have fresh: "\<not> list_ex (\<lambda>r. service_name r = sn \<and> username r = un) ?rows"
  proof
    assume "list_ex (\<lambda>r. service_name r = sn \<and> username r = un) ?rows"
    then have "\<not> success res"
      using add by (auto simp add: add_credential_duplicate)
    with ok show False by simp
  qed
  define i where "i = next_rowid (map cred_id ?rows) (seq_credentials (conn s))"
  define row where "row =
     \<lparr>cred_id = i, service_name = sn, username = un, email = em,
      password_encrypted = encrypt cs iv password,
      password_strength = calculate_password_strength password, notes' = nt,
      category = cat, created_at = now, updated_at = now, last_accessed = None\<rparr>"
  have res: "id' res = Some i" and rows': "credentials (conn s') = ?rows @ [row]"
    using add add_credential_new [OF fresh, of cs iv now password em nt cat]
    by (auto simp add: Let_def i_def row_def)
  have "i \<notin> set (map cred_id ?rows)"
    unfolding i_def by (rule next_rowid_notin)
  then have "find (\<lambda>r. cred_id r = i) ?rows = None"
    by (auto simp add: find_None_iff)
  then have "find (\<lambda>r. cred_id r = i) (credentials (conn s')) = Some row"
    by (simp add: rows' find_append row_def)
  moreover have "decrypt cs (password_encrypted row) = Some password"
    using cipher by (simp add: row_def)
  ultimately have "fst (get_credential_by_id cs now' s' i) =
     Some (AList.delete ''password_encrypted''
            (AList.update ''password'' (Text password)
               (dict_of_row (row\<lparr>last_accessed := Some now'\<rparr>))))"
    by (rule get_credential_by_id_found)
  then show ?thesis
    using res by (simp add: returned_dict row_def)
qed

theorem add_then_get_roundtrip_witness:
  "success (fst first_add) \<and>
   id' (fst first_add) = Some 1 \<and>
   fst (get_credential_by_id demo_cipher 200 (snd first_add) 1) =
     Some [(''id'', Integer 1),
           (''service_name'', Text ''GitHub''),
           (''username'', Text ''alice''),
           (''email'', Null),
           (''password_strength'', Text ''Medium''),
           (''notes'', Null),
           (''category'', Text ''General''),
           (''created_at'', Timestamp 100),
           (''updated_at'', Timestamp 100),
           (''last_accessed'', Timestamp 200),
           (''password'', Text ''Password1'')]"
proof -
  have strength: "calculate_password_strength ''Password1'' = ''Medium''"
    by (simp add: calculate_password_strength_def password_score_def isupper_def
        islower_def isdigit_def symbols_def)
  have run: "add_credential demo_cipher 65 100 connect ''GitHub'' ''alice'' ''Password1''
      None None ''General'' = (fst first_add, snd first_add)"
    by (simp add: first_add_def)
  have ok: "success (fst first_add)" and i: "id' (fst first_add) = Some 1"
    by (simp_all add: first_add_eval)
  show ?thesis
    using add_then_get_roundtrip [OF demo_cipher_roundtrip run ok, of 200] ok i
    by (simp add: strength nullable_def)
qed

subsection \<open>Passwords at rest\<close>

























subsection \<open>The point read and its timestamp\<close>


lemma damaged_vault_rows:
  "credentials (conn damaged_vault) =
     [\<lparr>cred_id = 1, service_name = ''GitHub'', username = ''alice'', email = None,
       password_encrypted = ''AAAAAA1drowssaP'', password_strength = ''Medium'',
       notes' = None, category = ''General'', created_at = 100, updated_at = 100,
       last_accessed = None\<rparr>]"
  by (simp add: damaged_vault_def github_vault_rows Let_def)



subsection \<open>Decryption failures\<close>

lemma listed_credentials_fails:
  "r \<in> set rows \<Longrightarrow> decrypt cs (password_encrypted r) = None \<Longrightarrow>
   \<exists>e. listed_credentials cs True rows = Inl e"
proof (induction rows)
  case Nil
  then show ?case by simp
next
  case (Cons a rows)
  show ?case
  proof (cases "decrypt cs (password_encrypted a)")
    case None
    then show ?thesis by (simp add: listed_credential_def decrypt_password_def)
  next
    case (Some p)
    then have "r \<in> set rows" using Cons.prems by auto
    then obtain e where "listed_credentials cs True rows = Inl e"
      using Cons.IH Cons.prems(2) by blast
    then show ?thesis by (simp split: sum.split)
  qed
qed

text \<open>
  C9, as amended. Where the ciphertext of an existing credential does not decrypt, the
  methods that decrypt it surface no error. \<open>get_credential_by_id\<close> of the credential
  returns \<open>None\<close>, which is what it returns for an id that no credential has;
  \<open>get_all_credentials\<close> with decryption returns the empty list, which is what it returns
  on a new vault.
\<close>

theorem decryption_failure_masked:
  assumes "find (\<lambda>r. cred_id r = i) (credentials (conn s)) = Some r"
      and "decrypt cs (password_encrypted r) = None"
      and "find (\<lambda>r. cred_id r = j) (credentials (conn s)) = None"
  shows "fst (get_credential_by_id cs now s i) = None \<and>
         fst (get_credential_by_id cs now s j) = None \<and>
         get_all_credentials cs s True = [] \<and>
         get_all_credentials cs connect True = []"
proof -
  have "fst (get_credential_by_id cs now s i) = None"
    using assms(1,2)
    by (simp add: get_credential_by_id_def Let_def find_touched decrypt_password_def)
  moreover have "fst (get_credential_by_id cs now s j) = None"
    using assms(3)
    by (simp add: get_credential_by_id_def Let_def find_touched)
  moreover have "r \<in> set (sort_key (\<lambda>r. (service_name r, username r)) (credentials (conn s)))"
    using assms(1) by (auto simp add: find_Some_iff)
  then obtain e where "listed_credentials cs True
      (sort_key (\<lambda>r. (service_name r, username r)) (credentials (conn s))) = Inl e"
    using assms(2) listed_credentials_fails by blast
  then have "get_all_credentials cs s True = []"
    by (simp add: get_all_credentials_def)
  moreover have "get_all_credentials cs connect True = []"
    by (simp add: get_all_credentials_def connect_def empty_database_def)
  ultimately show ?thesis by simp
qed

theorem decryption_failure_masked_witness:
  "fst (get_credential_by_id demo_cipher 200 damaged_vault 1) = None \<and>
   fst (get_credential_by_id demo_cipher 200 damaged_vault 2) = None \<and>
   get_all_credentials demo_cipher damaged_vault True = [] \<and>
   get_all_credentials demo_cipher connect True = []"
proof -
  let ?r = "\<lparr>cred_id = 1, service_name = ''GitHub'', username = ''alice'', email = None,
       password_encrypted = ''AAAAAA1drowssaP'', password_strength = ''Medium'',
       notes' = None, category = ''General'', created_at = 100, updated_at = 100,
       last_accessed = None\<rparr>"
  have found: "find (\<lambda>r. cred_id r = 1) (credentials (conn damaged_vault)) = Some ?r"
    by (simp add: damaged_vault_rows)
  have dec: "decrypt demo_cipher (password_encrypted ?r) = None"
    by (simp add: demo_cipher_def)
  have missing: "find (\<lambda>r. cred_id r = 2) (credentials (conn damaged_vault)) = None"
    by (simp add: damaged_vault_rows)
  show ?thesis
    using decryption_failure_masked [OF found dec missing, of 200] by simp
qed

text \<open>
  The claim as stated has the failure surface as an error of its own. In \<open>damaged_vault\<close>
  the result for the credential that exists is the result for an id that does not, and
  the list with decryption is the list of an empty vault.
\<close>

theorem decryption_failure_counterexample:
  "map cred_id (credentials (conn damaged_vault)) = [1] \<and>
   decrypt demo_cipher ''AAAAAA1drowssaP'' = None \<and>
   fst (get_credential_by_id demo_cipher 200 damaged_vault 1) = None \<and>
   fst (get_credential_by_id demo_cipher 200 damaged_vault 2) = None \<and>
   get_all_credentials demo_cipher damaged_vault True = [] \<and>
   get_all_credentials demo_cipher connect True = []"
  by code_simp

subsection \<open>Search\<close>







lemma utf8_bytes_append: "utf8_bytes (a @ b) = utf8_bytes a + utf8_bytes b"
  by (simp add: utf8_bytes_def)
























subsection \<open>\<open>delete_credential\<close>\<close>

text \<open>
  The connection is opened with foreign keys off and no method turns them on: they are
  off in every store the class reaches.
\<close>

lemma connect_foreign_keys: "\<not> foreign_keys connect"
  by (simp add: connect_def)

lemma apply_update_foreign_keys:
  "foreign_keys (snd (apply_update now s i fs)) = foreign_keys s"
  by (simp add: apply_update_def commit_def split: sum.split)

lemma methods_keep_foreign_keys:
  "foreign_keys (snd (add_credential cs iv now s sn un p em nt cat)) = foreign_keys s"
  "foreign_keys (snd (update_credential cs iv now s i kw)) = foreign_keys s"
  "foreign_keys (snd (delete_credential s i)) = foreign_keys s"
  "foreign_keys (snd (get_credential_by_id cs now s i)) = foreign_keys s"
proof -
  show "foreign_keys (snd (add_credential cs iv now s sn un p em nt cat)) = foreign_keys s"
    by (simp add: add_credential_def Let_def commit_def split: sum.split prod.split)
  show "foreign_keys (snd (update_credential cs iv now s i kw)) = foreign_keys s"
    by (simp add: update_credential_def Let_def apply_update_foreign_keys
        split: option.split sum.split)
  show "foreign_keys (snd (delete_credential s i)) = foreign_keys s"
    by (simp add: delete_credential_def commit_def split: prod.split)
  show "foreign_keys (snd (get_credential_by_id cs now s i)) = foreign_keys s"
    by (simp add: get_credential_by_id_store)
qed

lemma delete_keeps_history:
  "\<not> foreign_keys s \<Longrightarrow>
   password_history (conn (snd (delete_credential s i))) = password_history (conn s)"
  by (simp add: delete_credential_def delete_credentials_where_id_def Let_def commit_def)

lemma delete_then_get:
  "fst (get_credential_by_id cs now (snd (delete_credential s i)) i) = None"
proof -
  have "find (\<lambda>r. cred_id r = i) (credentials (conn (snd (delete_credential s i)))) = None"
    by (auto simp add: delete_credential_def delete_credentials_where_id_def Let_def commit_def
        find_None_iff)
  then show ?thesis
    by (simp add: get_credential_by_id_def Let_def find_touched)
qed

lemma delete_cascades_with_foreign_keys:
  assumes "foreign_keys s" and "success (fst (delete_credential s i))"
  shows "\<not> list_ex (\<lambda>h. hist_credential_id h = i)
           (password_history (disk (snd (delete_credential s i))))"
  using assms
  by (auto simp add: delete_credential_def delete_credentials_where_id_def Let_def commit_def
      list_ex_iff split: if_splits)

text \<open>
  C2, on the code. \<open>delete_credential\<close> of the one credential of \<open>github_vault\<close> succeeds
  and commits; the credential is gone and \<open>get_credential_by_id\<close> finds nothing, but the
  \<open>password_history\<close> row of the credential is still in the table: the schema declares
  \<open>ON DELETE CASCADE\<close>, and the connection never enables foreign keys.
\<close>

theorem delete_leaves_history:
  "delete_credential github_vault 1 =
     (\<lparr>success = True, message = ''Credential deleted'', id' = None\<rparr>,
      \<lparr>foreign_keys = False,
       conn = \<lparr>credentials = [],
              password_history =
                [\<lparr>hist_id = 1, hist_credential_id = 1,
                  hist_password_encrypted = ''gAAAAAA1drowssaP'', hist_generated_at = 100\<rparr>],
              seq_credentials = 1, seq_password_history = 1\<rparr>,
       disk = \<lparr>credentials = [],
              password_history =
                [\<lparr>hist_id = 1, hist_credential_id = 1,
                  hist_password_encrypted = ''gAAAAAA1drowssaP'', hist_generated_at = 100\<rparr>],
              seq_credentials = 1, seq_password_history = 1\<rparr>\<rparr>) \<and>
   fst (get_credential_by_id demo_cipher 200 (snd (delete_credential github_vault 1)) 1) = None"
  by code_simp

subsection \<open>\<open>update_credential\<close>\<close>

lemma update_no_fields:
  "update_credential cs iv now s i no_kwargs =
     (\<lparr>success = False, message = ''No updates provided'', id' = None\<rparr>, s)"
  by (simp add: update_credential_def apply_update_def plain_fields_def no_kwargs_def)

lemma update_missing_id:
  assumes "\<not> foreign_keys s"
      and "\<not> list_ex (\<lambda>r. cred_id r = i) (credentials (conn s))"
      and "kw_password kw = Some p"
  shows "fst (update_credential cs iv now s i kw) =
           \<lparr>success = True, message = ''Credential updated'', id' = None\<rparr>"
    and "password_history (disk (snd (update_credential cs iv now s i kw))) =
           password_history (conn s) @
           [\<lparr>hist_id = next_rowid (map hist_id (password_history (conn s)))
                (seq_password_history (conn s)),
             hist_credential_id = i, hist_password_encrypted = encrypt cs iv p,
             hist_generated_at = now\<rparr>]"
  using assms
  by (auto simp add: update_credential_def apply_update_def insert_history_def
      update_credentials_where_id_def encrypt_password_def Let_def commit_def list_ex_iff)

text \<open>
  C6, on the code. On a new vault, \<open>update_credential\<close> of the id 999 with a password
  reports success and commits a \<open>password_history\<close> row for the credential that does not
  exist; with a category only it reports success as well. \<open>delete_credential\<close> of the
  same id reports that the credential was not found.
\<close>

theorem update_of_missing_id:
  "update_credential demo_cipher 67 300 connect 999
     (no_kwargs\<lparr>kw_password := Some ''N3wPassw0rd!''\<rparr>) =
     (\<lparr>success = True, message = ''Credential updated'', id' = None\<rparr>,
      \<lparr>foreign_keys = False,
       conn = \<lparr>credentials = [],
              password_history =
                [\<lparr>hist_id = 1, hist_credential_id = 999,
                  hist_password_encrypted = ''gAAAAAC!dr0wssaPw3N'', hist_generated_at = 300\<rparr>],
              seq_credentials = 0, seq_password_history = 1\<rparr>,
       disk = \<lparr>credentials = [],
              password_history =
                [\<lparr>hist_id = 1, hist_credential_id = 999,
                  hist_password_encrypted = ''gAAAAAC!dr0wssaPw3N'', hist_generated_at = 300\<rparr>],
              seq_credentials = 0, seq_password_history = 1\<rparr>\<rparr>) \<and>
   update_credential demo_cipher 67 300 connect 999 (no_kwargs\<lparr>kw_category := Some ''Work''\<rparr>) =
     (\<lparr>success = True, message = ''Credential updated'', id' = None\<rparr>, connect) \<and>
   delete_credential connect 999 =
     (\<lparr>success = False, message = ''Credential not found'', id' = None\<rparr>, connect)"
  by code_simp

end
